theory Spec2Isabelle
  imports Main "HOL-Library.Sublist"
begin

section \<open>JavaScript built-ins used by the two prototypes\<close>

text \<open>
  A JavaScript string is modelled as the \<^typ>\<open>string\<close> of its UTF-8 bytes: an ASCII
  character is one element, any other code point is its two to four bytes (\<open>utf8\<close>
  below). A contiguous part of a well-formed string is a contiguous part of its bytes,
  so searching is done on the bytes. The case mapping is that of the ASCII letters
  (every literal of the two source files that is lowercased or searched is ASCII); the
  white space of \<^verbatim>\<open>trim\<close> is the full set of the language.
\<close>

definition toLowerCase_char :: "char \<Rightarrow> char" where
  "toLowerCase_char c =
     (let n = (of_char c :: nat) in if 65 \<le> n \<and> n \<le> 90 then char_of (n + 32) else c)"

definition toLowerCase :: "string \<Rightarrow> string" where
  "toLowerCase s = map toLowerCase_char s"

text \<open>\<^verbatim>\<open>hay.startsWith(needle)\<close> and \<^verbatim>\<open>hay.includes(needle)\<close>: a scan over every start index.\<close>

fun startsWith :: "string \<Rightarrow> string \<Rightarrow> bool" where
  "startsWith hay [] = True"
| "startsWith [] (n # ns) = False"
| "startsWith (h # hs) (n # ns) = (h = n \<and> startsWith hs ns)"

fun includes_js :: "string \<Rightarrow> string \<Rightarrow> bool" where
  "includes_js [] needle = startsWith [] needle"
| "includes_js (h # hs) needle = (startsWith (h # hs) needle \<or> includes_js hs needle)"

text \<open>The UTF-8 bytes of a code point.\<close>

definition utf8 :: "nat \<Rightarrow> string" where
  "utf8 cp =
     (if cp < 128 then [char_of cp]
      else if cp < 2048 then [char_of (192 + cp div 64), char_of (128 + cp mod 64)]
      else if cp < 65536 then
        [char_of (224 + cp div 4096), char_of (128 + cp div 64 mod 64), char_of (128 + cp mod 64)]
      else
        [char_of (240 + cp div 262144), char_of (128 + cp div 4096 mod 64),
         char_of (128 + cp div 64 mod 64), char_of (128 + cp mod 64)])"

text \<open>
  The code points that \<^verbatim>\<open>String.prototype.trim\<close> removes, the white space and the
  line terminators of the language: TAB, LF, VT, FF, CR, SPACE, U+00A0 (no-break space),
  U+1680, U+2000 to U+200A, U+2028, U+2029, U+202F, U+205F, U+3000 (ideographic space)
  and U+FEFF (byte order mark).
\<close>

definition WHITE_SPACE_CODE_POINTS :: "nat list" where
  "WHITE_SPACE_CODE_POINTS =
     [9, 10, 11, 12, 13, 32, 160, 5760] @ [8192..<8203] @ [8232, 8233, 8239, 8287, 12288, 65279]"

definition WHITE_SPACE :: "string list" where
  "WHITE_SPACE = map utf8 WHITE_SPACE_CODE_POINTS"

text \<open>
  \<open>leading ws s\<close> is the number of bytes of the member of \<open>ws\<close> that \<open>s\<close> starts with,
  and 0 when it starts with none; \<open>strip ws s\<close> removes such members from the start of
  \<open>s\<close> until none is left. \<^verbatim>\<open>trimStart\<close> strips white space from the start,
  \<^verbatim>\<open>trimEnd\<close> from the end (the start of the reversed bytes, against the reversed
  white space), and \<^verbatim>\<open>trim\<close> from both.
\<close>

definition leading :: "string list \<Rightarrow> string \<Rightarrow> nat" where
  "leading ws s = (case find (\<lambda>w. startsWith s w) ws of None \<Rightarrow> 0 | Some w \<Rightarrow> length w)"

fun strip :: "string list \<Rightarrow> string \<Rightarrow> string" where
  "strip ws [] = []"
| "strip ws (c # cs) =
     (case leading ws (c # cs) of 0 \<Rightarrow> c # cs | Suc k \<Rightarrow> strip ws (drop k cs))"

definition trimStart :: "string \<Rightarrow> string" where
  "trimStart s = strip WHITE_SPACE s"

definition trimEnd :: "string \<Rightarrow> string" where
  "trimEnd s = rev (strip (map rev WHITE_SPACE) (rev s))"

definition trim :: "string \<Rightarrow> string" where
  "trim s = trimEnd (trimStart s)"

text \<open>A blank text: a no-break space, an ideographic space, a space and a byte order mark.\<close>

definition UNICODE_BLANK :: string where
  "UNICODE_BLANK = utf8 160 @ utf8 12288 @ '' '' @ utf8 65279"

text \<open>\<^verbatim>\<open>Array.prototype.some\<close> and \<^verbatim>\<open>Array.prototype.filter\<close>.\<close>

fun some :: "('a \<Rightarrow> bool) \<Rightarrow> 'a list \<Rightarrow> bool" where
  "some p [] = False"
| "some p (x # xs) = (if p x then True else some p xs)"

fun filter_js :: "('a \<Rightarrow> bool) \<Rightarrow> 'a list \<Rightarrow> 'a list" where
  "filter_js p [] = []"
| "filter_js p (x # xs) = (if p x then x # filter_js p xs else filter_js p xs)"

text \<open>
  \<^verbatim>\<open>Array.prototype.slice(start, end)\<close>: a negative index counts from the end, both
  indices are clamped to the array, and an empty range gives the empty array.
\<close>

definition slice :: "'a list \<Rightarrow> int \<Rightarrow> int \<Rightarrow> 'a list" where
  "slice xs start stop =
     (let len = int (length xs);
          k = (if start < 0 then max (len + start) 0 else min start len);
          final = (if stop < 0 then max (len + stop) 0 else min stop len)
      in take (nat (final - k)) (drop (nat k) xs))"

text \<open>
  \<^verbatim>\<open>xs[0]\<close>: \<^verbatim>\<open>undefined\<close> (here \<open>None\<close>) on an empty array.
\<close>

definition first_elem :: "'a list \<Rightarrow> 'a option" where
  "first_elem xs = (case xs of [] \<Rightarrow> None | x # _ \<Rightarrow> Some x)"

text \<open>
  Table cells are numbers or strings. Every number of the sample data is a decimal
  literal with at most one fractional digit, so a number is kept in tenths:
  \<open>Num 51\<close> is \<^verbatim>\<open>5.1\<close>, and \<open>dec 5 1\<close> writes it as the source does.
  \<^verbatim>\<open>String(c)\<close> prints such a number without a fractional part when it is whole
  (\<^verbatim>\<open>String(5.0)\<close> is \<^verbatim>\<open>"5"\<close>) and with its one digit otherwise.
\<close>

datatype cell = Num int | Str string

definition dec :: "int \<Rightarrow> int \<Rightarrow> cell" where
  "dec whole tenth = Num (10 * whole + tenth)"

fun digits :: "nat \<Rightarrow> string" where
  "digits n =
     (if n < 10 then [char_of (48 + n)] else digits (n div 10) @ [char_of (48 + n mod 10)])"

declare digits.simps [simp del]

fun String_js :: "cell \<Rightarrow> string" where
  "String_js (Str s) = s"
| "String_js (Num n) =
     (let a = nat \<bar>n\<bar> in
        (if n < 0 then ''-'' else '''') @ digits (a div 10) @
        (if a mod 10 = 0 then '''' else CHR ''.'' # digits (a mod 10)))"

section \<open>The table analyst prototype (ai\_table\_standalone\_app/example.jsx)\<close>

subsection \<open>Sample data\<close>

definition IRIS :: "cell list list" where
  "IRIS = [
    [dec 5 1, dec 3 5, dec 1 4, dec 0 2, Str ''Setosa''], [dec 4 9, dec 3 0, dec 1 4, dec 0 2, Str ''Setosa''],
    [dec 4 7, dec 3 2, dec 1 3, dec 0 2, Str ''Setosa''], [dec 4 6, dec 3 1, dec 1 5, dec 0 2, Str ''Setosa''],
    [dec 5 0, dec 3 6, dec 1 4, dec 0 2, Str ''Setosa''], [dec 5 4, dec 3 9, dec 1 7, dec 0 4, Str ''Setosa''],
    [dec 4 6, dec 3 4, dec 1 4, dec 0 3, Str ''Setosa''], [dec 5 0, dec 3 4, dec 1 5, dec 0 2, Str ''Setosa''],
    [dec 4 4, dec 2 9, dec 1 4, dec 0 2, Str ''Setosa''], [dec 4 9, dec 3 1, dec 1 5, dec 0 1, Str ''Setosa''],
    [dec 6 3, dec 3 3, dec 6 0, dec 2 5, Str ''Virginica''], [dec 5 8, dec 2 7, dec 5 1, dec 1 9, Str ''Virginica''],
    [dec 7 1, dec 3 0, dec 5 9, dec 2 1, Str ''Virginica''], [dec 6 3, dec 2 9, dec 5 6, dec 1 8, Str ''Virginica''],
    [dec 5 7, dec 2 5, dec 5 0, dec 2 0, Str ''Versicolor''], [dec 5 8, dec 2 8, dec 5 1, dec 2 4, Str ''Versicolor''],
    [dec 6 4, dec 3 2, dec 5 3, dec 2 3, Str ''Versicolor''], [dec 6 5, dec 3 0, dec 5 5, dec 1 8, Str ''Versicolor'']
  ]"

record table =
  table_id :: string
  label :: string
  sheets :: "string list"

definition TABLES :: "table list" where
  "TABLES = [
    \<lparr>table_id = ''iris_3'', label = ''irisgood_3'', sheets = [''Sheet1'']\<rparr>,
    \<lparr>table_id = ''sales_q1'', label = ''sales_Q1.xlsx'', sheets = [''Jan'', ''Feb'', ''Mar'']\<rparr>,
    \<lparr>table_id = ''inventory'', label = ''inventory_2024.xlsx'', sheets = [''Electronics'', ''Clothing'']\<rparr>
  ]"

datatype role = User | Assistant

record chat_msg =
  msg_role :: role
  msg_text :: string

definition CHAT_MSGS :: "chat_msg list" where
  "CHAT_MSGS = [
    \<lparr>msg_role = Assistant, msg_text = ''Hi! I'm your AI analyst. Ask me anything about this dataset.''\<rparr>,
    \<lparr>msg_role = User, msg_text = ''What's the average sepal length?''\<rparr>,
    \<lparr>msg_role = Assistant, msg_text = ''The average sepal length across all 150 rows is **5.84 cm**. Virginica has the highest average at 6.59 cm, while Setosa has the lowest at 5.01 cm.''\<rparr>
  ]"

text \<open>
  The canned reply of the demo; its ellipsis (U+2026) is written as the three bytes of
  its UTF-8 encoding.
\<close>

definition DEMO_REPLY :: string where
  "DEMO_REPLY = ''Great question! Let me analyze that for you'' @
     [char_of (226 :: nat), char_of (128 :: nat), char_of (166 :: nat)] @ '' (demo mode)''"

subsection \<open>The state of the App component and its handlers\<close>

text \<open>
  One field per \<^verbatim>\<open>useState\<close> hook. \<open>tables\<close> is the module-level array
  \<^verbatim>\<open>TABLES\<close>, which the import handler extends; \<open>timers\<close> counts the reply
  callbacks that \<^verbatim>\<open>setTimeout\<close> has scheduled and that have not run yet.
\<close>

record app_state =
  activeTable :: table
  activeSheet :: "string option"
  panel :: "string option"
  tableDropOpen :: bool
  sheetDropOpen :: bool
  search :: string
  chatInput :: string
  messages :: "chat_msg list"
  tables :: "table list"
  timers :: nat

definition app_init :: app_state where
  "app_init = \<lparr>
     activeTable = TABLES ! 0,
     activeSheet = first_elem (sheets (TABLES ! 0)),
     panel = None,
     tableDropOpen = False,
     sheetDropOpen = False,
     search = [],
     chatInput = [],
     messages = CHAT_MSGS,
     tables = TABLES,
     timers = 0\<rparr>"

definition filtered :: "app_state \<Rightarrow> cell list list" where
  "filtered s =
     filter_js (\<lambda>r. some (\<lambda>c. includes_js (toLowerCase (String_js c)) (toLowerCase (search s))) r) IRIS"

definition switchTable :: "table \<Rightarrow> app_state \<Rightarrow> app_state" where
  "switchTable t s =
     s\<lparr>activeTable := t, activeSheet := first_elem (sheets t),
       tableDropOpen := False, sheetDropOpen := False\<rparr>"

definition togglePanel :: "string \<Rightarrow> app_state \<Rightarrow> app_state" where
  "togglePanel p s = s\<lparr>panel := (if panel s = Some p then None else Some p)\<rparr>"

text \<open>
  \<^verbatim>\<open>sendMsg\<close> returns early on a blank input; otherwise it appends the user's
  message, clears the input and schedules the reply. The scheduled callback appends the
  canned reply to whatever the list is when it runs.
\<close>

definition sendMsg :: "app_state \<Rightarrow> app_state" where
  "sendMsg s =
     (if trim (chatInput s) = [] then s
      else s\<lparr>messages := messages s @ [\<lparr>msg_role = User, msg_text = chatInput s\<rparr>],
             chatInput := [],
             timers := timers s + 1\<rparr>)"

definition reply_callback :: "app_state \<Rightarrow> app_state" where
  "reply_callback s = s\<lparr>messages := messages s @ [\<lparr>msg_role = Assistant, msg_text = DEMO_REPLY\<rparr>]\<rparr>"

text \<open>The file input's \<^verbatim>\<open>onChange\<close>: no file, no effect; otherwise the new table is pushed and shown.\<close>

definition import_file :: "string option \<Rightarrow> app_state \<Rightarrow> app_state" where
  "import_file file s =
     (case file of
        None \<Rightarrow> s
      | Some name \<Rightarrow>
          (let newTable = \<lparr>table_id = name, label = name, sheets = [''Sheet1'']\<rparr>
           in switchTable newTable (s\<lparr>tables := tables s @ [newTable]\<rparr>)))"

text \<open>
  What the user and the timer can do. A table or a sheet is picked by its position in
  the rendered list; a position past the end of the list is no item, and a timer event
  without a scheduled callback is no event: both leave the state as it is.
\<close>

datatype app_event =
    ClickTablePill
  | PickTable nat
  | ClickSheetPill
  | PickSheet nat
  | ImportFile "string option"
  | ClickChatToggle
  | ClickStatsToggle
  | ClosePanel
  | ClickLayout
  | SetSearch string
  | SetChatInput string
  | SendMsg
  | ReplyTimer

fun app_step :: "app_state \<Rightarrow> app_event \<Rightarrow> app_state" where
  "app_step s ClickTablePill = s\<lparr>tableDropOpen := \<not> tableDropOpen s, sheetDropOpen := False\<rparr>"
| "app_step s (PickTable i) = (if i < length (tables s) then switchTable (tables s ! i) s else s)"
| "app_step s ClickSheetPill = s\<lparr>sheetDropOpen := \<not> sheetDropOpen s, tableDropOpen := False\<rparr>"
| "app_step s (PickSheet j) =
     (if j < length (sheets (activeTable s))
      then s\<lparr>activeSheet := Some (sheets (activeTable s) ! j), sheetDropOpen := False\<rparr> else s)"
| "app_step s (ImportFile file) = import_file file s"
| "app_step s ClickChatToggle = togglePanel ''chat'' s"
| "app_step s ClickStatsToggle = togglePanel ''stats'' s"
| "app_step s ClosePanel = s\<lparr>panel := None\<rparr>"
| "app_step s ClickLayout = s\<lparr>tableDropOpen := False, sheetDropOpen := False\<rparr>"
| "app_step s (SetSearch v) = s\<lparr>search := v\<rparr>"
| "app_step s (SetChatInput v) = s\<lparr>chatInput := v\<rparr>"
| "app_step s SendMsg = sendMsg s"
| "app_step s ReplyTimer = (if timers s = 0 then s else reply_callback (s\<lparr>timers := timers s - 1\<rparr>))"

definition app_steps :: "app_state \<Rightarrow> app_event list \<Rightarrow> app_state" where
  "app_steps s evs = foldl app_step s evs"

definition app_run :: "app_event list \<Rightarrow> app_state" where
  "app_run evs = app_steps app_init evs"

section \<open>The RAG chat prototype (rag\_example.jsx)\<close>

subsection \<open>Mock data\<close>

record source =
  source_id :: nat
  name :: string
  pages :: string
  relevance :: int

definition MOCK_SOURCES :: "source list" where
  "MOCK_SOURCES = [
    \<lparr>source_id = 1, name = ''22718743.pdf'', pages = ''p. 12-14'', relevance = 94\<rparr>,
    \<lparr>source_id = 2, name = ''22291054.pdf'', pages = ''p. 3-5'', relevance = 87\<rparr>,
    \<lparr>source_id = 3, name = ''20819283.pdf'', pages = ''p. 21'', relevance = 76\<rparr>,
    \<lparr>source_id = 4, name = ''22291053.pdf'', pages = ''p. 8-9'', relevance = 71\<rparr>,
    \<lparr>source_id = 5, name = ''22291061.pdf'', pages = ''p. 1-2'', relevance = 65\<rparr>
  ]"

text \<open>A message; \<open>sources = None\<close> is a message object without the \<^verbatim>\<open>sources\<close> key.\<close>

record message =
  role :: role
  content :: string
  sources :: "source list option"

definition MOCK_MESSAGES :: "message list" where
  "MOCK_MESSAGES = [
    \<lparr>role = User, content = ''What is chromatography?'', sources = None\<rparr>,
    \<lparr>role = Assistant,
     content = ''Chromatography is a laboratory technique used for the separation of mixtures into their individual components based on differences in how they interact with a stationary phase and a mobile phase.\<newline>\<newline>In chromatography, the mixture to be separated is dissolved in a fluid (the mobile phase), which carries it through a structure holding another material (the stationary phase). The various components of the mixture move at different speeds, causing them to separate as they flow through or over the stationary phase.\<newline>\<newline>There are several types of chromatography, including high-performance liquid chromatography (HPLC), gas chromatography (GC), ion chromatography, and capillary electrophoresis. Each type uses different mechanisms and phases but relies on the same fundamental principle of differential partitioning between phases to achieve separation.'',
     sources = Some MOCK_SOURCES\<rparr>
  ]"

definition SUGGESTED_QUESTIONS :: "string list" where
  "SUGGESTED_QUESTIONS = [
    ''Are there separation methods for ethyl sulfate?'',
    ''What analytical techniques detect trace impurities?'',
    ''Compare HPLC and GC for volatile compounds'',
    ''What sample preparation is needed for ion chromatography?''
  ]"

subsection \<open>The relevance badge\<close>

text \<open>
  \<^verbatim>\<open>RelevanceBadge\<close> picks its colours by the thresholds 85 and 70 and prints the
  value followed by a percent sign.
\<close>

record badge =
  color :: string
  background :: string
  badge_text :: string

definition RelevanceBadge :: "int \<Rightarrow> badge" where
  "RelevanceBadge v = \<lparr>
     color = (if v \<ge> 85 then ''#1d907d'' else if v \<ge> 70 then ''#877bb8'' else ''#a63b77''),
     background = (if v \<ge> 85 then ''#e9f8f5'' else if v \<ge> 70 then ''#f9f8fd'' else ''#ffd4ec'' @ ''55''),
     badge_text = String_js (Num (10 * v)) @ ''%''\<rparr>"

subsection \<open>The state of the RAGChatApp component and its handlers\<close>

text \<open>
  One field per \<^verbatim>\<open>useState\<close> hook, and \<open>rag_timers\<close>: the number of reply
  callbacks that \<^verbatim>\<open>setTimeout\<close> has scheduled and that have not run yet. (The
  timer of \<^verbatim>\<open>handleSuggest\<close> only moves the keyboard focus and is left out.)
\<close>

record rag_state =
  rag_messages :: "message list"
  input :: string
  showEmpty :: bool
  inputFocused :: bool
  rag_timers :: nat

definition rag_init :: rag_state where
  "rag_init = \<lparr>rag_messages = MOCK_MESSAGES, input = [], showEmpty = False,
     inputFocused = False, rag_timers = 0\<rparr>"

definition ASSISTANT_REPLY :: message where
  "ASSISTANT_REPLY = \<lparr>
     role = Assistant,
     content = ''Based on the documents in your knowledge base, I found several relevant passages addressing your question. Let me synthesize the key findings for you.\<newline>\<newline>The available literature describes multiple analytical approaches that have been validated for this type of analysis. The most commonly referenced methods involve chromatographic separation followed by mass spectrometric detection.'',
     sources = Some (slice MOCK_SOURCES 0 3)\<rparr>"

definition handleSend :: "rag_state \<Rightarrow> rag_state" where
  "handleSend s =
     (if trim (input s) = [] then s
      else s\<lparr>rag_messages := rag_messages s @ [\<lparr>role = User, content = trim (input s), sources = None\<rparr>],
             input := [],
             showEmpty := False,
             rag_timers := rag_timers s + 1\<rparr>)"

definition rag_reply_callback :: "rag_state \<Rightarrow> rag_state" where
  "rag_reply_callback s = s\<lparr>rag_messages := rag_messages s @ [ASSISTANT_REPLY]\<rparr>"

definition handleSuggest :: "string \<Rightarrow> rag_state \<Rightarrow> rag_state" where
  "handleSuggest txt s = s\<lparr>input := txt, showEmpty := False\<rparr>"

definition handleNewChat :: "rag_state \<Rightarrow> rag_state" where
  "handleNewChat s = s\<lparr>rag_messages := [], showEmpty := True\<rparr>"

datatype rag_event =
    SetInput string
  | SetInputFocused bool
  | HandleSend
  | RagReplyTimer
  | ClickSuggestion nat
  | HandleNewChat

fun rag_step :: "rag_state \<Rightarrow> rag_event \<Rightarrow> rag_state" where
  "rag_step s (SetInput v) = s\<lparr>input := v\<rparr>"
| "rag_step s (SetInputFocused b) = s\<lparr>inputFocused := b\<rparr>"
| "rag_step s HandleSend = handleSend s"
| "rag_step s RagReplyTimer =
     (if rag_timers s = 0 then s else rag_reply_callback (s\<lparr>rag_timers := rag_timers s - 1\<rparr>))"
| "rag_step s (ClickSuggestion i) =
     (if i < length SUGGESTED_QUESTIONS then handleSuggest (SUGGESTED_QUESTIONS ! i) s else s)"
| "rag_step s HandleNewChat = handleNewChat s"

definition rag_steps :: "rag_state \<Rightarrow> rag_event list \<Rightarrow> rag_state" where
  "rag_steps s evs = foldl rag_step s evs"

definition rag_run :: "rag_event list \<Rightarrow> rag_state" where
  "rag_run evs = rag_steps rag_init evs"

text \<open>
  What a caller of a send handler observes. Neither handler has a \<^verbatim>\<open>throw\<close>
  statement or an error value: every call returns normally, the blank case by the early
  \<^verbatim>\<open>return\<close>. The error kinds are those of the service's taxonomy.
\<close>

datatype error = InvalidInput | NotFound | BackendUnavailable | BackendRejected | UnsupportedMethod

definition handleSend_call :: "rag_state \<Rightarrow> error + rag_state" where
  "handleSend_call s = Inr (handleSend s)"

definition sendMsg_call :: "app_state \<Rightarrow> error + app_state" where
  "sendMsg_call s = Inr (sendMsg s)"

section \<open>Notions used in the statements\<close>

text \<open>
  The rows a search string selects, in the words of the specification: the rows of
  \<open>IRIS\<close>, in their order, with at least one cell whose lowercased string form
  contains the lowercased search string as a contiguous part.
\<close>

definition rows_matching :: "string \<Rightarrow> cell list list" where
  "rows_matching s =
     filter (\<lambda>r. \<exists>c\<in>set r. sublist (toLowerCase s) (toLowerCase (String_js c))) IRIS"

text \<open>A source list is ranked when its relevance never increases from one entry to the next.\<close>

definition descending :: "source list \<Rightarrow> bool" where
  "descending srcs = sorted_wrt (\<lambda>a b. relevance a \<ge> relevance b) srcs"

text \<open>The source lists attached to the messages of a state, in message order.\<close>

definition attached_sources :: "rag_state \<Rightarrow> source list list" where
  "attached_sources s = List.map_filter sources (rag_messages s)"

text \<open>
  A relevance on the percent scale: between 0 and 100, and shown by the badge as that
  number followed by a percent sign.
\<close>

definition percent :: "source \<Rightarrow> bool" where
  "percent x = (0 \<le> relevance x \<and> relevance x \<le> 100 \<and>
     badge_text (RelevanceBadge (relevance x)) = digits (nat (relevance x)) @ ''%'')"




text \<open>
  Every table on offer has a sheet, and the active sheet is one of the active table's.
\<close>

definition sheet_ok :: "app_state \<Rightarrow> bool" where
  "sheet_ok s = (list_all (\<lambda>t. sheets t \<noteq> []) (tables s) \<and>
     (case activeSheet s of None \<Rightarrow> False | Some sh \<Rightarrow> sh \<in> set (sheets (activeTable s))))"

section \<open>The document store of the RAG service\<close>

text \<open>
  Modelled from the spec: the RAG service (its interface, adapters and document
  operations) is not among the source files, so \<open>deleteDocument\<close> follows the
  specification's sentences: a document has an identifier, a display name, a processing
  status and a byte size; a knowledge base lists its documents in creation order;
  deleting removes the document with the given identifier, and deleting an absent
  identifier fails with \<open>NotFound\<close> only when strict mode is requested and succeeds
  silently otherwise. The operation returns the knowledge base it leaves behind.
\<close>

datatype status = Pending | Indexing | Indexed | Failed

record document =
  doc_identifier :: string
  display_name :: string
  status :: status
  byte_size :: nat

definition deleteDocument :: "bool \<Rightarrow> string \<Rightarrow> document list \<Rightarrow> error + document list" where
  "deleteDocument strict documentId kb =
     (if documentId \<in> set (map doc_identifier kb)
      then Inr (filter (\<lambda>d. doc_identifier d \<noteq> documentId) kb)
      else if strict then Inl NotFound else Inr kb)"

definition KB_FIXTURE :: "document list" where
  "KB_FIXTURE =
     [\<lparr>doc_identifier = ''doc-1'', display_name = ''notes.txt'', status = Indexed, byte_size = 10240\<rparr>]"

section \<open>The streaming chat coordinator of the RAG service\<close>




datatype coordinator_state = Idle | Streaming | Completed | Failed | Cancelled








section \<open>Facts about the built-ins and the runs\<close>

lemma startsWith_prefix: "startsWith hay needle \<longleftrightarrow> prefix needle hay"
  by (induction hay needle rule: startsWith.induct) auto

lemma includes_js_sublist: "includes_js hay needle \<longleftrightarrow> sublist needle hay"
  by (induction hay) (auto simp: startsWith_prefix sublist_Cons_right)

lemma some_iff: "some p xs \<longleftrightarrow> (\<exists>x\<in>set xs. p x)"
  by (induction xs) auto

lemma filter_js_filter: "filter_js p xs = filter p xs"
  by (induction xs) auto

lemma filter_all: "(\<And>x. x \<in> set xs \<Longrightarrow> p x) \<Longrightarrow> filter p xs = xs"
  by (induction xs) auto

lemma IRIS_rows_nonempty: "r \<in> set IRIS \<Longrightarrow> r \<noteq> []"
  by (auto simp: IRIS_def)

lemma slice_from_0: "0 \<le> n \<Longrightarrow> slice xs 0 n = take (nat n) xs"
  by (simp add: slice_def Let_def min_def)

lemma descending_slice: "descending xs \<Longrightarrow> descending (slice xs a b)"
  by (simp add: descending_def slice_def Let_def sorted_wrt_take sorted_wrt_drop)

lemma descending_MOCK_SOURCES: "descending MOCK_SOURCES"
  by (simp add: descending_def MOCK_SOURCES_def)

lemma slice_MOCK_3: "slice MOCK_SOURCES 0 3 = take 3 MOCK_SOURCES"
  by (simp add: slice_from_0)

lemma relevance_slice_MOCK_3: "map relevance (slice MOCK_SOURCES 0 3) = [94, 87, 76]"
  by (simp add: slice_MOCK_3 take_map [symmetric]) (simp add: MOCK_SOURCES_def)

lemma percent_MOCK: "list_all percent MOCK_SOURCES"
  by (simp add: percent_def MOCK_SOURCES_def RelevanceBadge_def Let_def)

lemma WHITE_SPACE_bytes: "WHITE_SPACE =
  [[CHR 0x09], [CHR 0x0A], [CHR 0x0B], [CHR 0x0C], [CHR 0x0D], [CHR 0x20],
   [CHR 0xC2, CHR 0xA0], [CHR 0xE1, CHR 0x9A, CHR 0x80],
   [CHR 0xE2, CHR 0x80, CHR 0x80], [CHR 0xE2, CHR 0x80, CHR 0x81],
   [CHR 0xE2, CHR 0x80, CHR 0x82], [CHR 0xE2, CHR 0x80, CHR 0x83],
   [CHR 0xE2, CHR 0x80, CHR 0x84], [CHR 0xE2, CHR 0x80, CHR 0x85],
   [CHR 0xE2, CHR 0x80, CHR 0x86], [CHR 0xE2, CHR 0x80, CHR 0x87],
   [CHR 0xE2, CHR 0x80, CHR 0x88], [CHR 0xE2, CHR 0x80, CHR 0x89],
   [CHR 0xE2, CHR 0x80, CHR 0x8A], [CHR 0xE2, CHR 0x80, CHR 0xA8],
   [CHR 0xE2, CHR 0x80, CHR 0xA9], [CHR 0xE2, CHR 0x80, CHR 0xAF],
   [CHR 0xE2, CHR 0x81, CHR 0x9F], [CHR 0xE3, CHR 0x80, CHR 0x80],
   [CHR 0xEF, CHR 0xBB, CHR 0xBF]]"
  by (simp add: WHITE_SPACE_def WHITE_SPACE_CODE_POINTS_def upt_rec utf8_def char_of_def
      bit_Suc_0_iff)

lemmas trim_eval = trim_def trimStart_def trimEnd_def WHITE_SPACE_bytes leading_def

lemma trim_blank: "trim ''   '' = []"
  by (simp add: trim_eval)


lemma trim_hplc: "trim ''hplc'' = ''hplc''"
  by (simp add: trim_eval)


lemma UNICODE_BLANK_bytes:
  "UNICODE_BLANK =
     [CHR 0xC2, CHR 0xA0, CHR 0xE3, CHR 0x80, CHR 0x80, CHR 0x20, CHR 0xEF, CHR 0xBB, CHR 0xBF]"
  by (simp add: UNICODE_BLANK_def utf8_def char_of_def bit_Suc_0_iff)

lemma trim_unicode_blank: "trim UNICODE_BLANK = []"
  unfolding UNICODE_BLANK_bytes by (simp add: trim_eval)

text \<open>A letter whose last byte is that of the no-break space is kept.\<close>

lemma trim_keeps_letter: "trim (utf8 224 @ '' '') = utf8 224"
  by (simp add: utf8_def char_of_def bit_Suc_0_iff trim_eval)

subsection \<open>Runs of the table analyst\<close>

lemma app_steps_Cons: "app_steps s (e # es) = app_steps (app_step s e) es"
  by (simp add: app_steps_def)

lemma app_steps_snoc: "app_steps s (evs @ [e]) = app_step (app_steps s evs) e"
  by (simp add: app_steps_def)

lemma panel_step:
  "panel s \<in> {None, Some ''chat'', Some ''stats''} \<Longrightarrow>
   panel (app_step s e) \<in> {None, Some ''chat'', Some ''stats''}"
  by (cases e) (auto simp: togglePanel_def switchTable_def sendMsg_def reply_callback_def
      import_file_def Let_def split: option.splits)

lemma panel_reachable: "panel (app_run evs) \<in> {None, Some ''chat'', Some ''stats''}"
proof (induction evs rule: rev_induct)
  case Nil
  then show ?case by (simp add: app_run_def app_steps_def app_init_def)
next
  case (snoc e evs)
  then show ?case using panel_step [of "app_run evs" e] by (simp add: app_run_def app_steps_snoc)
qed

lemma sheet_ok_switchTable:
  "sheets t \<noteq> [] \<Longrightarrow> list_all (\<lambda>t. sheets t \<noteq> []) (tables s) \<Longrightarrow> sheet_ok (switchTable t s)"
  by (cases "sheets t") (simp_all add: sheet_ok_def switchTable_def first_elem_def)

lemma sheet_ok_step: "sheet_ok s \<Longrightarrow> sheet_ok (app_step s e)"
proof (cases e)
  case (PickTable i)
  assume ok: "sheet_ok s"
  show ?thesis
  proof (cases "i < length (tables s)")
    case True
    with ok have "sheets (tables s ! i) \<noteq> []"
      by (simp add: sheet_ok_def list_all_length)
    moreover from ok have "list_all (\<lambda>t. sheets t \<noteq> []) (tables s)"
      by (simp add: sheet_ok_def)
    ultimately have "sheet_ok (switchTable (tables s ! i) s)"
      by (rule sheet_ok_switchTable)
    with True PickTable show ?thesis by simp
  next
    case False
    with ok PickTable show ?thesis by simp
  qed
next
  case (ImportFile fl)
  assume ok: "sheet_ok s"
  show ?thesis
  proof (cases fl)
    case None
    with ok ImportFile show ?thesis by (simp add: import_file_def)
  next
    case (Some f)
    from ok have "list_all (\<lambda>t. sheets t \<noteq> [])
        (tables (s\<lparr>tables := tables s @ [\<lparr>table_id = f, label = f, sheets = [''Sheet1'']\<rparr>]\<rparr>))"
      by (simp add: sheet_ok_def)
    then have "sheet_ok (switchTable \<lparr>table_id = f, label = f, sheets = [''Sheet1'']\<rparr>
        (s\<lparr>tables := tables s @ [\<lparr>table_id = f, label = f, sheets = [''Sheet1'']\<rparr>]\<rparr>))"
      by (intro sheet_ok_switchTable) simp_all
    with Some ImportFile show ?thesis
      by (simp add: import_file_def Let_def)
  qed
next
  case (PickSheet j)
  assume "sheet_ok s"
  with PickSheet show ?thesis by (auto simp: sheet_ok_def split: option.splits)
qed (auto simp: sheet_ok_def togglePanel_def sendMsg_def reply_callback_def split: option.splits)

lemma sheet_ok_reachable: "sheet_ok (app_run evs)"
proof (induction evs rule: rev_induct)
  case Nil
  then show ?case
    by (simp add: app_run_def app_steps_def app_init_def sheet_ok_def TABLES_def first_elem_def)
next
  case (snoc e evs)
  then show ?case using sheet_ok_step [of "app_run evs" e]
    by (simp add: app_run_def app_steps_snoc)
qed

lemma app_step_prefix: "prefix (messages a) (messages (app_step a e))"
  by (cases e) (simp_all add: sendMsg_def reply_callback_def switchTable_def togglePanel_def
      import_file_def Let_def split: option.splits)

lemma app_steps_prefix: "prefix (messages a) (messages (app_steps a es))"
proof (induction es arbitrary: a)
  case Nil
  then show ?case by (simp add: app_steps_def)
next
  case (Cons e es)
  have "prefix (messages a) (messages (app_step a e))" by (rule app_step_prefix)
  also have "prefix \<dots> (messages (app_steps (app_step a e) es))" by (rule Cons.IH)
  finally show ?case by (simp add: app_steps_Cons)
qed

subsection \<open>Runs of the RAG chat\<close>

lemma rag_steps_Cons: "rag_steps s (e # es) = rag_steps (rag_step s e) es"
  by (simp add: rag_steps_def)

lemma rag_steps_snoc: "rag_steps s (es @ [e]) = rag_step (rag_steps s es) e"
  by (simp add: rag_steps_def)

lemma attached_step:
  assumes "list_all P (attached_sources s)" and "P (slice MOCK_SOURCES 0 3)"
  shows "list_all P (attached_sources (rag_step s e))"
proof (cases e)
  case HandleSend
  then show ?thesis using assms
    by (simp add: handleSend_def attached_sources_def List.map_filter_def)
next
  case RagReplyTimer
  then show ?thesis using assms
    by (simp add: rag_reply_callback_def ASSISTANT_REPLY_def attached_sources_def List.map_filter_def)
next
  case HandleNewChat
  then show ?thesis by (simp add: handleNewChat_def attached_sources_def List.map_filter_def)
qed (use assms in \<open>simp_all add: attached_sources_def handleSuggest_def\<close>)

lemma attached_reachable:
  assumes "P MOCK_SOURCES" and "P (slice MOCK_SOURCES 0 3)"
  shows "list_all P (attached_sources (rag_run evs))"
proof (induction evs rule: rev_induct)
  case Nil
  then show ?case using assms(1)
    by (simp add: rag_run_def rag_steps_def rag_init_def attached_sources_def
        List.map_filter_def MOCK_MESSAGES_def)
next
  case (snoc e evs)
  then show ?case using attached_step [of P "rag_run evs" e] assms(2)
    by (simp add: rag_run_def rag_steps_snoc)
qed





lemma rag_step_prefix:
  "e \<noteq> HandleNewChat \<Longrightarrow> prefix (rag_messages s) (rag_messages (rag_step s e))"
  by (cases e) (simp_all add: handleSend_def rag_reply_callback_def handleSuggest_def)

lemma rag_steps_prefix:
  "HandleNewChat \<notin> set es \<Longrightarrow> prefix (rag_messages s) (rag_messages (rag_steps s es))"
proof (induction es arbitrary: s)
  case Nil
  then show ?case by (simp add: rag_steps_def)
next
  case (Cons e es)
  from Cons.prems have ne: "e \<noteq> HandleNewChat" and rest: "HandleNewChat \<notin> set es"
    by auto
  have "prefix (rag_messages s) (rag_messages (rag_step s e))"
    using ne by (rule rag_step_prefix)
  also have "prefix \<dots> (rag_messages (rag_steps (rag_step s e) es))"
    using rest by (rule Cons.IH)
  finally show ?case by (simp add: rag_steps_Cons)
qed

subsection \<open>Runs of the coordinator\<close>








subsection \<open>Turns of the RAG chat\<close>






section \<open>The claims\<close>

text \<open>
  Claim C1. A retrieval with \<open>topK = N\<close> returns at most \<open>N\<close> sources, ranked by
  descending relevance. The prototype's retrieval is a slice of the ranked mock list:
  for every \<open>N \<ge> 0\<close>, \<^verbatim>\<open>MOCK_SOURCES.slice(0, N)\<close> has at most \<open>N\<close> entries and
  is descending; \<open>MOCK_SOURCES\<close> itself is descending; the reply of a send carries
  \<^verbatim>\<open>MOCK_SOURCES.slice(0, 3)\<close>; and in every state the chat can reach, every source
  list attached to a message is descending.
\<close>

theorem sources_top_k_descending:
  "(0 \<le> N \<longrightarrow> int (length (slice MOCK_SOURCES 0 N)) \<le> N) \<and>
   descending (slice MOCK_SOURCES 0 N) \<and>
   descending MOCK_SOURCES \<and>
   sources ASSISTANT_REPLY = Some (slice MOCK_SOURCES 0 3) \<and>
   list_all descending (attached_sources (rag_run evs))"
proof -
  have "0 \<le> N \<longrightarrow> int (length (slice MOCK_SOURCES 0 N)) \<le> N"
    by (auto simp: slice_from_0)
  moreover have "list_all descending (attached_sources (rag_run evs))"
    by (rule attached_reachable) (simp_all add: descending_MOCK_SOURCES descending_slice)
  ultimately show ?thesis
    by (simp add: descending_MOCK_SOURCES descending_slice ASSISTANT_REPLY_def)
qed

theorem sources_top_k_descending_witness:
  "(0::int) \<le> 3 \<and> int (length (slice MOCK_SOURCES 0 3)) \<le> 3 \<and>
   map relevance (slice MOCK_SOURCES 0 3) = [94, 87, 76] \<and>
   descending (slice MOCK_SOURCES 0 3) \<and>
   list_all descending (attached_sources (rag_run [SetInput ''hplc'', HandleSend, RagReplyTimer]))"
  using sources_top_k_descending [of 3 "[SetInput ''hplc'', HandleSend, RagReplyTimer]"]
  by (simp add: relevance_slice_MOCK_3)

text \<open>
  Claim C2, as amended. The claim puts every relevance in the interval from 0.0 to 1.0;
  the prototype keeps relevance on the percent scale (94, 87, ...), which the badge
  prints with a percent sign and grades at 85 and 70. In every state the chat can
  reach, every source attached to a message has a relevance between 0 and 100, shown as
  that number followed by a percent sign.
\<close>

theorem relevance_is_percent:
  "list_all (list_all percent) (attached_sources (rag_run evs))"
proof (rule attached_reachable)
  show "list_all percent MOCK_SOURCES" by (rule percent_MOCK)
  then show "list_all percent (slice MOCK_SOURCES 0 3)"
    by (simp add: slice_MOCK_3 list_all_iff) (meson in_set_takeD)
qed

theorem relevance_is_percent_witness:
  "list_all (list_all percent) (attached_sources (rag_run [SetInput ''hplc'', HandleSend, RagReplyTimer])) \<and>
   badge_text (RelevanceBadge 94) = ''94%''"
proof -
  have "badge_text (RelevanceBadge 94) = ''94%''"
    by code_simp
  then show ?thesis
    using relevance_is_percent [of "[SetInput ''hplc'', HandleSend, RagReplyTimer]"] by simp
qed

text \<open>
  Claim C2 as stated fails: after one send and its reply, the first source of the
  reply has relevance 94, which is not at most 1.
\<close>

theorem relevance_unit_interval_counterexample:
  "attached_sources (rag_run [SetInput ''hplc'', HandleSend, RagReplyTimer]) ! 1 ! 0 = MOCK_SOURCES ! 0 \<and>
   relevance (MOCK_SOURCES ! 0) = 94 \<and> \<not> relevance (MOCK_SOURCES ! 0) \<le> 1"
  by (simp add: rag_run_def rag_steps_def rag_init_def handleSend_def trim_hplc
      rag_reply_callback_def ASSISTANT_REPLY_def slice_from_0 attached_sources_def
      List.map_filter_def MOCK_MESSAGES_def MOCK_SOURCES_def)




text \<open>
  Claim C4, as amended. The claim has a blank submission fail with \<open>InvalidInput\<close>;
  both send handlers instead guard the blank case with an early return (and the RAG
  chat disables its send button on a blank input). For every input whose trimmed form
  is empty, \<open>handleSend\<close> and \<open>sendMsg\<close> return normally and leave the whole state
  unchanged: a silent no-op, with no error reported. Only a blank input is ignored so:
  on any other input the handlers change the state.
\<close>

theorem blank_send_is_silent:
  "(trim (input s) = [] \<longrightarrow> handleSend_call s = Inr s) \<and>
   (trim (chatInput a) = [] \<longrightarrow> sendMsg_call a = Inr a) \<and>
   (trim (input s) \<noteq> [] \<longrightarrow> handleSend_call s \<noteq> Inr s) \<and>
   (trim (chatInput a) \<noteq> [] \<longrightarrow> sendMsg_call a \<noteq> Inr a)"
proof -
  have "handleSend s \<noteq> s" if "trim (input s) \<noteq> []"
  proof
    assume "handleSend s = s"
    then have "rag_timers (handleSend s) = rag_timers s" by simp
    with that show False by (simp add: handleSend_def)
  qed
  moreover have "sendMsg a \<noteq> a" if "trim (chatInput a) \<noteq> []"
  proof
    assume "sendMsg a = a"
    then have "timers (sendMsg a) = timers a" by simp
    with that show False by (simp add: sendMsg_def)
  qed
  ultimately show ?thesis
    by (auto simp: handleSend_call_def sendMsg_call_def handleSend_def sendMsg_def)
qed

theorem blank_send_is_silent_witness:
  "trim (input (rag_run [SetInput ''   ''])) = [] \<and>
   handleSend_call (rag_run [SetInput ''   '']) = Inr (rag_run [SetInput ''   '']) \<and>
   trim (input (rag_run [SetInput UNICODE_BLANK])) = [] \<and>
   handleSend_call (rag_run [SetInput UNICODE_BLANK]) =
     Inr (rag_run [SetInput UNICODE_BLANK]) \<and>
   trim (chatInput (app_run [SetChatInput UNICODE_BLANK])) = [] \<and>
   sendMsg_call (app_run [SetChatInput UNICODE_BLANK]) =
     Inr (app_run [SetChatInput UNICODE_BLANK]) \<and>
   trim (input (rag_run [SetInput ''hplc''])) \<noteq> [] \<and>
   handleSend_call (rag_run [SetInput ''hplc'']) \<noteq> Inr (rag_run [SetInput ''hplc'']) \<and>
   trim (chatInput (app_run [SetChatInput ''hplc''])) \<noteq> [] \<and>
   sendMsg_call (app_run [SetChatInput ''hplc'']) \<noteq> Inr (app_run [SetChatInput ''hplc''])"
proof -
  let ?b = "UNICODE_BLANK"
  have i: "input (rag_run [SetInput v]) = v" for v
    by (simp add: rag_run_def rag_steps_def rag_init_def)
  have c: "chatInput (app_run [SetChatInput v]) = v" for v
    by (simp add: app_run_def app_steps_def app_init_def)
  have "trim (input (rag_run [SetInput ''   ''])) = [] \<and>
      handleSend_call (rag_run [SetInput ''   '']) = Inr (rag_run [SetInput ''   ''])"
    using blank_send_is_silent [of "rag_run [SetInput ''   '']" app_init]
    by (simp add: i trim_blank)
  moreover have "trim (input (rag_run [SetInput ?b])) = [] \<and>
      handleSend_call (rag_run [SetInput ?b]) = Inr (rag_run [SetInput ?b]) \<and>
      trim (chatInput (app_run [SetChatInput ?b])) = [] \<and>
      sendMsg_call (app_run [SetChatInput ?b]) = Inr (app_run [SetChatInput ?b])"
    using blank_send_is_silent [of "rag_run [SetInput ?b]" "app_run [SetChatInput ?b]"]
    by (simp add: i c trim_unicode_blank)
  moreover have "trim (input (rag_run [SetInput ''hplc''])) \<noteq> [] \<and>
      handleSend_call (rag_run [SetInput ''hplc'']) \<noteq> Inr (rag_run [SetInput ''hplc'']) \<and>
      trim (chatInput (app_run [SetChatInput ''hplc''])) \<noteq> [] \<and>
      sendMsg_call (app_run [SetChatInput ''hplc'']) \<noteq> Inr (app_run [SetChatInput ''hplc''])"
    using blank_send_is_silent [of "rag_run [SetInput ''hplc'']" "app_run [SetChatInput ''hplc'']"]
    by (simp add: i c trim_hplc)
  ultimately show ?thesis by blast
qed

text \<open>
  Claim C4 as stated fails: with three spaces typed, or with the blank text above (a
  no-break space, an ideographic space, a space and a byte order mark), the trimmed
  input is empty, and the handler returns the state it was given rather than
  \<open>InvalidInput\<close>.
\<close>

theorem blank_send_invalid_input_counterexample:
  "trim (input (rag_run [SetInput ''   ''])) = [] \<and>
   handleSend_call (rag_run [SetInput ''   '']) = Inr (rag_run [SetInput ''   '']) \<and>
   handleSend_call (rag_run [SetInput ''   '']) \<noteq> Inl InvalidInput \<and>
   trim (chatInput (app_run [SetChatInput ''   ''])) = [] \<and>
   sendMsg_call (app_run [SetChatInput ''   '']) = Inr (app_run [SetChatInput ''   '']) \<and>
   sendMsg_call (app_run [SetChatInput ''   '']) \<noteq> Inl InvalidInput \<and>
   trim (input (rag_run [SetInput UNICODE_BLANK])) = [] \<and>
   handleSend_call (rag_run [SetInput UNICODE_BLANK]) \<noteq> Inl InvalidInput"
proof -
  have i: "input (rag_run [SetInput v]) = v" for v
    by (simp add: rag_run_def rag_steps_def rag_init_def)
  have c: "chatInput (app_run [SetChatInput v]) = v" for v
    by (simp add: app_run_def app_steps_def app_init_def)
  show ?thesis
    by (simp add: i c trim_blank trim_unicode_blank handleSend_call_def sendMsg_call_def
        handleSend_def sendMsg_def)
qed

text \<open>
  Claim C5, as amended. The claim has every transition of the chat state only append
  to the message list; in the RAG chat the new-chat handler empties the list on purpose.
  Every run of the RAG chat without a new chat keeps the messages it started from as a
  prefix of its messages, a new chat leaves the list empty, and every run of the table
  analyst keeps the messages it started from as a prefix.
\<close>

theorem messages_append_only:
  "(HandleNewChat \<notin> set es \<longrightarrow> prefix (rag_messages s) (rag_messages (rag_steps s es))) \<and>
   rag_messages (rag_step s HandleNewChat) = [] \<and>
   prefix (messages a) (messages (app_steps a evs))"
  by (simp add: rag_steps_prefix app_steps_prefix handleNewChat_def)

theorem messages_append_only_witness:
  "HandleNewChat \<notin> set [SetInput ''hplc'', HandleSend, RagReplyTimer] \<and>
   prefix MOCK_MESSAGES (rag_messages (rag_run [SetInput ''hplc'', HandleSend, RagReplyTimer])) \<and>
   prefix CHAT_MSGS (messages (app_run [SetChatInput ''mean?'', SendMsg, ReplyTimer]))"
  using messages_append_only [of "[SetInput ''hplc'', HandleSend, RagReplyTimer]" rag_init app_init
      "[SetChatInput ''mean?'', SendMsg, ReplyTimer]"]
  by (simp add: rag_run_def app_run_def) (simp add: rag_init_def app_init_def)

text \<open>
  Claim C5 as stated fails: a new chat between a send and its reply discards the
  delivered messages, and the reply then stands alone.
\<close>

theorem messages_append_only_counterexample:
  "rag_messages (rag_run [SetInput ''hplc'', HandleSend]) =
     MOCK_MESSAGES @ [\<lparr>role = User, content = ''hplc'', sources = None\<rparr>] \<and>
   rag_messages (rag_run [SetInput ''hplc'', HandleSend, HandleNewChat]) = [] \<and>
   rag_messages (rag_run [SetInput ''hplc'', HandleSend, HandleNewChat, RagReplyTimer]) = [ASSISTANT_REPLY] \<and>
   \<not> prefix (rag_messages (rag_run [SetInput ''hplc'', HandleSend]))
       (rag_messages (rag_run [SetInput ''hplc'', HandleSend, HandleNewChat]))"
proof -
  have a: "rag_messages (rag_run [SetInput ''hplc'', HandleSend]) =
     MOCK_MESSAGES @ [\<lparr>role = User, content = ''hplc'', sources = None\<rparr>]"
    by (simp add: rag_run_def rag_steps_def rag_init_def handleSend_def trim_hplc)
  have b: "rag_messages (rag_run [SetInput ''hplc'', HandleSend, HandleNewChat]) = []"
    by (simp add: rag_run_def rag_steps_def handleNewChat_def)
  have c: "rag_messages (rag_run [SetInput ''hplc'', HandleSend, HandleNewChat, RagReplyTimer]) = [ASSISTANT_REPLY]"
    by (simp add: rag_run_def rag_steps_def rag_init_def handleSend_def trim_hplc handleNewChat_def
        rag_reply_callback_def)
  show ?thesis by (simp add: a b c)
qed

text \<open>
  Claim C6. \<open>deleteDocument\<close> is idempotent in non-strict mode: a non-strict delete
  succeeds, leaves the identifier absent, and a second non-strict delete of the same
  identifier succeeds again and changes nothing; in strict mode deleting an absent
  identifier fails with \<open>NotFound\<close>, so a repeated strict delete fails the second time.
\<close>

theorem deleteDocument_idempotent:
  "(\<exists>kb'. deleteDocument False documentId kb = Inr kb' \<and>
          documentId \<notin> set (map doc_identifier kb') \<and>
          deleteDocument False documentId kb' = Inr kb') \<and>
   (documentId \<notin> set (map doc_identifier kb) \<longrightarrow> deleteDocument True documentId kb = Inl NotFound) \<and>
   (documentId \<in> set (map doc_identifier kb) \<longrightarrow>
      (\<exists>kb'. deleteDocument True documentId kb = Inr kb' \<and>
             deleteDocument True documentId kb' = Inl NotFound))"
  by (auto simp: deleteDocument_def)

theorem deleteDocument_idempotent_witness:
  "''nonexistent-id'' \<notin> set (map doc_identifier KB_FIXTURE) \<and>
   deleteDocument True ''nonexistent-id'' KB_FIXTURE = Inl NotFound \<and>
   deleteDocument False ''nonexistent-id'' KB_FIXTURE = Inr KB_FIXTURE \<and>
   ''doc-1'' \<in> set (map doc_identifier KB_FIXTURE) \<and>
   deleteDocument False ''doc-1'' KB_FIXTURE = Inr [] \<and>
   deleteDocument False ''doc-1'' [] = Inr [] \<and>
   deleteDocument True ''doc-1'' [] = Inl NotFound"
  using deleteDocument_idempotent [of "''nonexistent-id''" KB_FIXTURE]
    deleteDocument_idempotent [of "''doc-1''" KB_FIXTURE]
  by (simp add: KB_FIXTURE_def deleteDocument_def)

text \<open>
  Claim C8, as amended. The claim has two toggles of the same panel always restore the
  panel; the toggle is a switch between panels. Toggling \<open>p\<close> twice restores the state
  when the panel is closed or shows \<open>p\<close>; when another panel is open, the first toggle
  switches to \<open>p\<close> and the second closes it. In every state the app can reach, the
  panel is closed, the chat or the stats: at most one side panel is open.
\<close>

theorem togglePanel_twice:
  "(panel s = None \<or> panel s = Some p \<longrightarrow> togglePanel p (togglePanel p s) = s) \<and>
   (panel s \<noteq> None \<and> panel s \<noteq> Some p \<longrightarrow> togglePanel p (togglePanel p s) = s\<lparr>panel := None\<rparr>) \<and>
   panel (app_run evs) \<in> {None, Some ''chat'', Some ''stats''}"
  using panel_reachable [of evs] by (auto simp: togglePanel_def)

theorem togglePanel_twice_witness:
  "panel app_init = None \<and> togglePanel ''chat'' (togglePanel ''chat'' app_init) = app_init \<and>
   panel (app_run [ClickStatsToggle]) \<noteq> None \<and> panel (app_run [ClickStatsToggle]) \<noteq> Some ''chat'' \<and>
   togglePanel ''chat'' (togglePanel ''chat'' (app_run [ClickStatsToggle])) =
     (app_run [ClickStatsToggle])\<lparr>panel := None\<rparr> \<and>
   panel (app_run [ClickChatToggle, ClosePanel, ClickStatsToggle]) = Some ''stats''"
proof -
  have a: "panel app_init = None" by (simp add: app_init_def)
  have b: "panel (app_run [ClickStatsToggle]) = Some ''stats''"
    by (simp add: app_run_def app_steps_def app_init_def togglePanel_def)
  have c: "panel (app_run [ClickChatToggle, ClosePanel, ClickStatsToggle]) = Some ''stats''"
    by (simp add: app_run_def app_steps_def app_init_def togglePanel_def)
  show ?thesis
    using a b c togglePanel_twice [of app_init "''chat''" "[]"]
      togglePanel_twice [of "app_run [ClickStatsToggle]" "''chat''" "[]"]
    by simp
qed

text \<open>
  Claim C8 as stated fails: with the stats panel open, two clicks on the chat toggle
  leave the panel closed, not on the stats.
\<close>

theorem togglePanel_twice_counterexample:
  "panel (app_run [ClickStatsToggle]) = Some ''stats'' \<and>
   panel (togglePanel ''chat'' (togglePanel ''chat'' (app_run [ClickStatsToggle]))) = None \<and>
   togglePanel ''chat'' (togglePanel ''chat'' (app_run [ClickStatsToggle])) \<noteq> app_run [ClickStatsToggle]"
proof -
  have a: "panel (app_run [ClickStatsToggle]) = Some ''stats''"
    by (simp add: app_run_def app_steps_def app_init_def togglePanel_def)
  have b: "panel (togglePanel ''chat'' (togglePanel ''chat'' (app_run [ClickStatsToggle]))) = None"
    by (simp add: app_run_def app_steps_def app_init_def togglePanel_def)
  have c: "togglePanel ''chat'' (togglePanel ''chat'' (app_run [ClickStatsToggle])) \<noteq> app_run [ClickStatsToggle]"
  proof
    assume "togglePanel ''chat'' (togglePanel ''chat'' (app_run [ClickStatsToggle])) = app_run [ClickStatsToggle]"
    then have "panel (togglePanel ''chat'' (togglePanel ''chat'' (app_run [ClickStatsToggle]))) =
               panel (app_run [ClickStatsToggle])"
      by simp
    with a b show False by simp
  qed
  from a b c show ?thesis by simp
qed

text \<open>
  Claim C9. After \<open>switchTable t\<close>, for a table \<open>t\<close> with at least one sheet, the active
  table is \<open>t\<close>, the active sheet is the first sheet of \<open>t\<close> and so one of the active
  table's sheets, and both dropdown menus are closed. In every state the app can reach,
  every table on offer has a sheet and the active sheet is one of the active table's.
\<close>

theorem switchTable_first_sheet:
  "(sheets t \<noteq> [] \<longrightarrow>
      activeTable (switchTable t s) = t \<and>
      activeSheet (switchTable t s) = Some (hd (sheets t)) \<and>
      hd (sheets t) \<in> set (sheets (activeTable (switchTable t s))) \<and>
      \<not> tableDropOpen (switchTable t s) \<and> \<not> sheetDropOpen (switchTable t s)) \<and>
   sheet_ok (app_run evs)"
proof -
  have "sheets t \<noteq> [] \<longrightarrow>
      activeTable (switchTable t s) = t \<and>
      activeSheet (switchTable t s) = Some (hd (sheets t)) \<and>
      hd (sheets t) \<in> set (sheets (activeTable (switchTable t s))) \<and>
      \<not> tableDropOpen (switchTable t s) \<and> \<not> sheetDropOpen (switchTable t s)"
    by (cases "sheets t") (simp_all add: switchTable_def first_elem_def)
  then show ?thesis by (simp add: sheet_ok_reachable)
qed

theorem switchTable_first_sheet_witness:
  "sheets (TABLES ! 1) \<noteq> [] \<and> activeTable (switchTable (TABLES ! 1) app_init) = TABLES ! 1 \<and>
   activeSheet (switchTable (TABLES ! 1) app_init) = Some ''Jan'' \<and>
   \<not> tableDropOpen (switchTable (TABLES ! 1) app_init) \<and>
   \<not> sheetDropOpen (switchTable (TABLES ! 1) app_init) \<and>
   sheet_ok (app_run [ClickTablePill, PickTable 1, ClickSheetPill, PickSheet 2])"
proof -
  have h: "sheets (TABLES ! 1) \<noteq> []" by (simp add: TABLES_def)
  show ?thesis
    using h switchTable_first_sheet [of "TABLES ! 1" app_init
        "[ClickTablePill, PickTable 1, ClickSheetPill, PickSheet 2]"]
    by (simp add: TABLES_def)
qed

text \<open>
  Claim C10. For every search string, the filtered rows are exactly the rows of
  \<open>IRIS\<close>, in their order, with at least one cell whose lowercased string form contains
  the lowercased search string; the empty search string gives every row of \<open>IRIS\<close>, and
  the filtered rows are never more than the rows of \<open>IRIS\<close>.
\<close>

theorem filtered_rows:
  "filtered s = rows_matching (search s) \<and>
   subseq (filtered s) IRIS \<and>
   filtered (s\<lparr>search := []\<rparr>) = IRIS \<and>
   length (filtered s) \<le> length IRIS"
proof -
  have eq: "filtered s = rows_matching (search s)" for s
    by (simp add: filtered_def rows_matching_def filter_js_filter some_iff includes_js_sublist)
  have "rows_matching [] = IRIS"
    unfolding rows_matching_def
  proof (rule filter_all)
    fix r assume "r \<in> set IRIS"
    then have "r \<noteq> []" by (rule IRIS_rows_nonempty)
    then obtain c cs where "r = c # cs" by (cases r) auto
    then show "\<exists>c\<in>set r. sublist (toLowerCase []) (toLowerCase (String_js c))"
      by (auto simp: toLowerCase_def)
  qed
  moreover have "subseq (rows_matching x) IRIS" for x
    by (simp add: rows_matching_def)
  moreover have "length (rows_matching x) \<le> length IRIS" for x
    by (simp add: rows_matching_def)
  ultimately show ?thesis by (simp add: eq)
qed

theorem filtered_rows_witness:
  "filtered (app_init\<lparr>search := []\<rparr>) = IRIS \<and> length IRIS = 18 \<and>
   length (filtered (app_run [SetSearch ''Setosa''])) \<le> 18"
proof -
  have n: "length IRIS = 18" by (simp add: IRIS_def)
  have a: "filtered (app_init\<lparr>search := []\<rparr>) = IRIS"
    using filtered_rows [of app_init] by blast
  have "length (filtered (app_run [SetSearch ''Setosa''])) \<le> length IRIS"
    using filtered_rows [of "app_run [SetSearch ''Setosa'']"] by blast
  with n a show ?thesis by simp
qed

end
